theory Spec2Isabelle
  imports Complex_Main
begin

section \<open>JavaScript numbers\<close>

text \<open>
  The calculator computes with JavaScript numbers. A number is modelled as a finite value
  carrying an exact real, or one of the three special values \<open>NaN\<close>, \<open>+Infinity\<close> and
  \<open>-Infinity\<close>. The operators below follow ECMAScript on the special values (a division by
  zero gives an infinity or \<open>NaN\<close>, \<open>NaN\<close> propagates and compares false with everything).
  On finite values the arithmetic is exact: the binary rounding of IEEE-754 doubles, overflow
  to infinity and the sign of zero are not part of the model, so every statement below is a
  statement about the formulas the code evaluates, in exact arithmetic.
\<close>

datatype jsnum = Num real | NaN | PosInf | NegInf

fun js_neg :: "jsnum \<Rightarrow> jsnum" where
  "js_neg (Num a) = Num (- a)"
| "js_neg NaN = NaN"
| "js_neg PosInf = NegInf"
| "js_neg NegInf = PosInf"

fun js_add :: "jsnum \<Rightarrow> jsnum \<Rightarrow> jsnum" where
  "js_add (Num a) (Num b) = Num (a + b)"
| "js_add NaN _ = NaN"
| "js_add _ NaN = NaN"
| "js_add PosInf NegInf = NaN"
| "js_add NegInf PosInf = NaN"
| "js_add PosInf _ = PosInf"
| "js_add _ PosInf = PosInf"
| "js_add NegInf _ = NegInf"
| "js_add _ NegInf = NegInf"

definition js_sub :: "jsnum \<Rightarrow> jsnum \<Rightarrow> jsnum" where
  "js_sub a b = js_add a (js_neg b)"

text \<open>The sign of a number, as the product and quotient rules for infinities need it.\<close>

fun js_sign :: "jsnum \<Rightarrow> int" where
  "js_sign (Num a) = (if a < 0 then -1 else if a = 0 then 0 else 1)"
| "js_sign NaN = 0"
| "js_sign PosInf = 1"
| "js_sign NegInf = -1"

definition signed_inf :: "int \<Rightarrow> jsnum" where
  "signed_inf s = (if s < 0 then NegInf else if s = 0 then NaN else PosInf)"

fun js_mul :: "jsnum \<Rightarrow> jsnum \<Rightarrow> jsnum" where
  "js_mul (Num a) (Num b) = Num (a * b)"
| "js_mul NaN _ = NaN"
| "js_mul _ NaN = NaN"
| "js_mul a b = signed_inf (js_sign a * js_sign b)"

fun js_div :: "jsnum \<Rightarrow> jsnum \<Rightarrow> jsnum" where
  "js_div (Num a) (Num b) =
     (if b = 0 then (if a = 0 then NaN else if 0 < a then PosInf else NegInf)
      else Num (a / b))"
| "js_div NaN _ = NaN"
| "js_div _ NaN = NaN"
| "js_div (Num a) _ = Num 0"
| "js_div a (Num b) = (if b < 0 then js_neg a else a)"
| "js_div _ _ = NaN"

text \<open>The relational operators; every comparison with \<open>NaN\<close> is false.\<close>

fun js_lt :: "jsnum \<Rightarrow> jsnum \<Rightarrow> bool" where
  "js_lt (Num a) (Num b) = (a < b)"
| "js_lt NaN _ = False"
| "js_lt _ NaN = False"
| "js_lt _ NegInf = False"
| "js_lt PosInf _ = False"
| "js_lt _ _ = True"

definition js_gt :: "jsnum \<Rightarrow> jsnum \<Rightarrow> bool" where
  "js_gt a b = js_lt b a"

text \<open>Strict equality \<open>===\<close> and its negation \<open>!==\<close> on numbers.\<close>

definition js_seq :: "jsnum \<Rightarrow> jsnum \<Rightarrow> bool" where
  "js_seq a b = (a \<noteq> NaN \<and> a = b)"

definition js_sne :: "jsnum \<Rightarrow> jsnum \<Rightarrow> bool" where
  "js_sne a b = (\<not> js_seq a b)"

definition js_le :: "jsnum \<Rightarrow> jsnum \<Rightarrow> bool" where
  "js_le a b = (js_lt a b \<or> js_seq a b)"

text \<open>Truthiness of a number: \<open>!x\<close> holds for \<open>0\<close> and \<open>NaN\<close> only.\<close>

definition js_truthy :: "jsnum \<Rightarrow> bool" where
  "js_truthy a = (a \<noteq> NaN \<and> a \<noteq> Num 0)"

text \<open>\<open>Math.round\<close>: the nearest integer, a tie going up.\<close>

fun js_round :: "jsnum \<Rightarrow> jsnum" where
  "js_round (Num a) = Num (of_int \<lfloor>a + 1 / 2\<rfloor>)"
| "js_round a = a"

fun js_max :: "jsnum \<Rightarrow> jsnum \<Rightarrow> jsnum" where
  "js_max NaN _ = NaN"
| "js_max _ NaN = NaN"
| "js_max a b = (if js_lt a b then b else a)"

fun js_min :: "jsnum \<Rightarrow> jsnum \<Rightarrow> jsnum" where
  "js_min NaN _ = NaN"
| "js_min _ NaN = NaN"
| "js_min a b = (if js_lt b a then b else a)"

text \<open>
  The remainder operator \<open>%\<close>: the result has the sign of the dividend; it is \<open>NaN\<close> for a
  zero divisor or an infinite dividend, and the dividend itself for an infinite divisor.
\<close>

definition js_trunc :: "real \<Rightarrow> int" where
  "js_trunc x = (if x < 0 then \<lceil>x\<rceil> else \<lfloor>x\<rfloor>)"

fun js_mod :: "jsnum \<Rightarrow> jsnum \<Rightarrow> jsnum" where
  "js_mod (Num a) (Num b) = (if b = 0 then NaN else Num (a - b * of_int (js_trunc (a / b))))"
| "js_mod NaN _ = NaN"
| "js_mod _ NaN = NaN"
| "js_mod (Num a) _ = Num a"
| "js_mod _ _ = NaN"

text \<open>
  \<open>Math.pow\<close>. An integral exponent is a repeated product (or its reciprocal); any other
  exponent needs a positive base. The infinite cases follow the ECMAScript table.
\<close>

definition is_integral :: "real \<Rightarrow> bool" where
  "is_integral y = (y = of_int \<lfloor>y\<rfloor>)"

definition pow_finite :: "real \<Rightarrow> real \<Rightarrow> jsnum" where
  "pow_finite b y =
     (if y = 0 then Num 1
      else if is_integral y then
        (if 0 < y then Num (b ^ nat \<lfloor>y\<rfloor>)
         else if b = 0 then PosInf
         else Num (1 / b ^ nat \<lfloor>- y\<rfloor>))
      else if 0 < b then Num (b powr y)
      else if b = 0 then (if 0 < y then Num 0 else PosInf)
      else NaN)"

fun js_pow :: "jsnum \<Rightarrow> jsnum \<Rightarrow> jsnum" where
  "js_pow (Num b) (Num y) = pow_finite b y"
| "js_pow _ NaN = NaN"
| "js_pow NaN (Num y) = (if y = 0 then Num 1 else NaN)"
| "js_pow NaN _ = NaN"
| "js_pow (Num b) PosInf =
     (if 1 < \<bar>b\<bar> then PosInf else if \<bar>b\<bar> = 1 then NaN else Num 0)"
| "js_pow (Num b) NegInf =
     (if 1 < \<bar>b\<bar> then Num 0 else if \<bar>b\<bar> = 1 then NaN else PosInf)"
| "js_pow PosInf (Num y) = (if y = 0 then Num 1 else if 0 < y then PosInf else Num 0)"
| "js_pow NegInf (Num y) =
     (if y = 0 then Num 1
      else if 0 < y then (if is_integral y \<and> odd \<lfloor>y\<rfloor> then NegInf else PosInf)
      else Num 0)"
| "js_pow _ PosInf = PosInf"
| "js_pow _ NegInf = Num 0"

section \<open>Helpers of storage.js\<close>

definition yearsToMonths :: "jsnum \<Rightarrow> jsnum" where
  "yearsToMonths years = js_mul years (Num 12)"

definition annualToMonthlyRate :: "jsnum \<Rightarrow> jsnum" where
  "annualToMonthlyRate annualRate = js_div (js_div annualRate (Num 100)) (Num 12)"

text \<open>\<open>round(value, decimals)\<close>; the name \<open>round\<close> is taken by the library.\<close>

definition round_js :: "jsnum \<Rightarrow> jsnum \<Rightarrow> jsnum" where
  "round_js v decimals =
     js_div (js_round (js_mul v (js_pow (Num 10) decimals))) (js_pow (Num 10) decimals)"

section \<open>The SIP calculator\<close>

datatype error = Error string

record sip_result =
  monthlyAmount :: jsnum
  years :: jsnum
  months :: jsnum
  annualReturns :: jsnum
  monthlyRate :: jsnum
  totalInvested :: jsnum
  maturityValue :: jsnum
  returns :: jsnum
  returnPercentage :: jsnum

text \<open>
  \<open>calculateSIP\<close>. A \<open>throw\<close> is the left summand. A missing argument is \<open>undefined\<close>,
  which the guards \<open>!x\<close> treat as they treat \<open>NaN\<close>.
\<close>

definition calculateSIP :: "jsnum \<Rightarrow> jsnum \<Rightarrow> jsnum \<Rightarrow> error + sip_result" where
  "calculateSIP monthlyAmount_in years_in annualReturns_in =
     (if \<not> js_truthy monthlyAmount_in \<or> js_lt monthlyAmount_in (Num 0) then
        Inl (Error ''Monthly amount must be a positive number'')
      else if \<not> js_truthy years_in \<or> js_lt years_in (Num 0) then
        Inl (Error ''Years must be a positive number'')
      else if \<not> js_truthy annualReturns_in \<or> js_lt annualReturns_in (Num 0) then
        Inl (Error ''Annual returns must be a positive number'')
      else
        let months_v = yearsToMonths years_in;
            monthlyRate_v = annualToMonthlyRate annualReturns_in;
            totalInvested_v = js_mul monthlyAmount_in months_v;
            futureValue =
              (if js_gt monthlyRate_v (Num 0) then
                 let numerator = js_sub (js_pow (js_add (Num 1) monthlyRate_v) months_v) (Num 1)
                 in js_mul (js_mul monthlyAmount_in (js_div numerator monthlyRate_v))
                      (js_add (Num 1) monthlyRate_v)
               else totalInvested_v);
            returns_v = js_sub futureValue totalInvested_v;
            returnPercentage_v = js_mul (js_div returns_v totalInvested_v) (Num 100)
        in Inr \<lparr> monthlyAmount = round_js monthlyAmount_in (Num 2),
                 years = years_in,
                 months = months_v,
                 annualReturns = round_js annualReturns_in (Num 2),
                 monthlyRate = round_js monthlyRate_v (Num 6),
                 totalInvested = round_js totalInvested_v (Num 2),
                 maturityValue = round_js futureValue (Num 2),
                 returns = round_js returns_v (Num 2),
                 returnPercentage = round_js returnPercentage_v (Num 2) \<rparr>)"

definition calculateSIPValue :: "jsnum \<Rightarrow> jsnum \<Rightarrow> jsnum \<Rightarrow> jsnum" where
  "calculateSIPValue monthlyAmount_in months_in monthlyRate_in =
     (if js_gt monthlyRate_in (Num 0) then
        let numerator = js_sub (js_pow (js_add (Num 1) monthlyRate_in) months_in) (Num 1)
        in js_mul (js_mul monthlyAmount_in (js_div numerator monthlyRate_in))
             (js_add (Num 1) monthlyRate_in)
      else js_mul monthlyAmount_in months_in)"

subsection \<open>Projections for the charts\<close>

text \<open>
  A label is a template string. The loop formats \<open>month / 12\<close> with \<open>toFixed(1)\<close>, the
  final point prints \<open>years\<close> as it is; the model keeps the number and the way it is
  printed instead of the characters.
\<close>

datatype label = YearFixed1 jsnum | YearPlain jsnum

record projections =
  labels :: "label list"
  invested :: "jsnum list"
  maturity :: "jsnum list"
  returns_series :: "jsnum list"

text \<open>
  The body shared by the loop and by the final point: the three values at \<open>month\<close> are
  computed from scratch and pushed, with the label, onto the four arrays
  (the field \<open>returns\<close> of the source is \<open>returns_series\<close> here).
\<close>

definition push_sample :: "jsnum \<Rightarrow> jsnum \<Rightarrow> label \<Rightarrow> jsnum \<Rightarrow> projections \<Rightarrow> projections" where
  "push_sample monthlyAmount_in monthlyRate_in lbl month acc =
     (let totalInvested_v = js_mul monthlyAmount_in month;
          currentValue = calculateSIPValue monthlyAmount_in month monthlyRate_in;
          returns_v = js_sub currentValue totalInvested_v
      in \<lparr> labels = labels acc @ [lbl],
           invested = invested acc @ [round_js totalInvested_v (Num 2)],
           maturity = maturity acc @ [round_js currentValue (Num 2)],
           returns_series = returns_series acc @ [round_js returns_v (Num 2)] \<rparr>)"

text \<open>
  The \<open>for\<close> loop. Nothing in the source bounds it for an interval that is zero or
  negative, so the model is a partial function: \<open>None\<close> is a loop that never ends.
\<close>

partial_function (option) projection_loop ::
  "jsnum \<Rightarrow> jsnum \<Rightarrow> jsnum \<Rightarrow> jsnum \<Rightarrow> jsnum \<Rightarrow> projections \<Rightarrow> projections option" where
  "projection_loop monthlyAmount_in monthlyRate_in interval totalMonths month acc =
     (if js_le month totalMonths then
        projection_loop monthlyAmount_in monthlyRate_in interval totalMonths
          (js_add month interval)
          (push_sample monthlyAmount_in monthlyRate_in
             (YearFixed1 (js_div month (Num 12))) month acc)
      else Some acc)"

declare projection_loop.simps [code]

text \<open>The optional fourth argument defaults to 6 when it is left out.\<close>

definition calculateSIPProjections ::
  "jsnum \<Rightarrow> jsnum \<Rightarrow> jsnum \<Rightarrow> jsnum option \<Rightarrow> projections option" where
  "calculateSIPProjections monthlyAmount_in years_in annualReturns_in interval_opt =
     (let interval = (case interval_opt of None \<Rightarrow> Num 6 | Some i \<Rightarrow> i);
          monthlyRate_v = annualToMonthlyRate annualReturns_in;
          totalMonths = yearsToMonths years_in
      in case projection_loop monthlyAmount_in monthlyRate_v interval totalMonths interval
                \<lparr> labels = [], invested = [], maturity = [], returns_series = [] \<rparr> of
           None \<Rightarrow> None
         | Some acc \<Rightarrow>
             Some (if js_sne (js_mod totalMonths interval) (Num 0)
                   then push_sample monthlyAmount_in monthlyRate_v (YearPlain years_in)
                          totalMonths acc
                   else acc))"

subsection \<open>Required contribution, lump sum, comparison\<close>

definition calculateRequiredSIP :: "jsnum \<Rightarrow> jsnum \<Rightarrow> jsnum \<Rightarrow> jsnum" where
  "calculateRequiredSIP targetAmount years_in annualReturns_in =
     (let months_v = yearsToMonths years_in;
          monthlyRate_v = annualToMonthlyRate annualReturns_in
      in if js_gt monthlyRate_v (Num 0) then
           let numerator = js_sub (js_pow (js_add (Num 1) monthlyRate_v) months_v) (Num 1);
               denominator = js_mul (js_div numerator monthlyRate_v) (js_add (Num 1) monthlyRate_v)
           in round_js (js_div targetAmount denominator) (Num 2)
         else round_js (js_div targetAmount months_v) (Num 2))"

text \<open>
  The fields of the lump-sum result that share a name with a field of the SIP result
  carry the prefix \<open>ls_\<close>.
\<close>

record lump_result =
  principal :: jsnum
  ls_years :: jsnum
  ls_annualReturns :: jsnum
  ls_maturityValue :: jsnum
  ls_returns :: jsnum
  ls_returnPercentage :: jsnum

definition calculateLumpSum :: "jsnum \<Rightarrow> jsnum \<Rightarrow> jsnum \<Rightarrow> lump_result" where
  "calculateLumpSum principal_in years_in annualReturns_in =
     (let annualRate = js_div annualReturns_in (Num 100);
          futureValue = js_mul principal_in (js_pow (js_add (Num 1) annualRate) years_in);
          returns_v = js_sub futureValue principal_in;
          returnPercentage_v = js_mul (js_div returns_v principal_in) (Num 100)
      in \<lparr> principal = round_js principal_in (Num 2),
           ls_years = years_in,
           ls_annualReturns = round_js annualReturns_in (Num 2),
           ls_maturityValue = round_js futureValue (Num 2),
           ls_returns = round_js returns_v (Num 2),
           ls_returnPercentage = round_js returnPercentage_v (Num 2) \<rparr>)"

record comparison =
  sipMaturity :: jsnum
  lumpSumMaturity :: jsnum
  difference :: jsnum
  winner :: string

record sip_vs_lumpsum =
  sipResult :: sip_result
  lumpSumResult :: lump_result
  sipTotalInvested :: jsnum
  comparison :: comparison

text \<open>An error thrown by \<open>calculateSIP\<close> leaves \<open>compareSIPvsLumpSum\<close> as it is.\<close>

definition compareSIPvsLumpSum ::
  "jsnum \<Rightarrow> jsnum \<Rightarrow> jsnum \<Rightarrow> jsnum \<Rightarrow> error + sip_vs_lumpsum" where
  "compareSIPvsLumpSum monthlySIP lumpSumAmount years_in annualReturns_in =
     (case calculateSIP monthlySIP years_in annualReturns_in of
        Inl e \<Rightarrow> Inl e
      | Inr sipRes \<Rightarrow>
          let lumpRes = calculateLumpSum lumpSumAmount years_in annualReturns_in;
              totalSIPInvested = js_mul monthlySIP (yearsToMonths years_in)
          in Inr \<lparr> sipResult = sipRes,
                   lumpSumResult = lumpRes,
                   sipTotalInvested = totalSIPInvested,
                   comparison =
                     \<lparr> sipMaturity = maturityValue sipRes,
                       lumpSumMaturity = ls_maturityValue lumpRes,
                       difference =
                         round_js (js_sub (maturityValue sipRes) (ls_maturityValue lumpRes)) (Num 2),
                       winner =
                         (if js_gt (maturityValue sipRes) (ls_maturityValue lumpRes)
                          then ''SIP'' else ''Lump Sum'') \<rparr> \<rparr>)"

section \<open>The portfolio planner\<close>

record allocation =
  sip :: jsnum
  stocks :: jsnum
  bonds :: jsnum
  realestate :: jsnum
  gold :: jsnum

text \<open>\<open>toLowerCase\<close> on the ASCII letters.\<close>

definition lower_char :: "char \<Rightarrow> char" where
  "lower_char c =
     (let n = (of_char c :: nat) in if 65 \<le> n \<and> n \<le> 90 then char_of (n + 32) else c)"

definition toLowerCase :: "string \<Rightarrow> string" where
  "toLowerCase s = map lower_char s"

text \<open>
  The table of \<open>getRecommendedAllocation\<close> is built anew at every call, so the record
  handed out is never shared between calls. A level that is not a key of the table gives
  the moderate allocation. The keys that an object inherits from its prototype (a level
  such as \<open>constructor\<close>) are not part of the model.
\<close>

definition getRecommendedAllocation :: "string \<Rightarrow> allocation" where
  "getRecommendedAllocation riskLevel =
     (let level = toLowerCase riskLevel in
      if level = ''conservative'' then
        \<lparr> sip = Num 40, stocks = Num 20, bonds = Num 30, realestate = Num 5, gold = Num 5 \<rparr>
      else if level = ''aggressive'' then
        \<lparr> sip = Num 30, stocks = Num 50, bonds = Num 10, realestate = Num 5, gold = Num 5 \<rparr>
      else
        \<lparr> sip = Num 40, stocks = Num 30, bonds = Num 20, realestate = Num 5, gold = Num 5 \<rparr>)"

text \<open>A field of \<open>constraints\<close> that is absent is \<open>None\<close>.\<close>

record constraints =
  riskTolerance :: "string option"
  timeHorizon :: "jsnum option"

definition allocation_values :: "allocation \<Rightarrow> jsnum list" where
  "allocation_values a = [sip a, stocks a, bonds a, realestate a, gold a]"

definition allocation_total :: "allocation \<Rightarrow> jsnum" where
  "allocation_total a = foldl js_add (Num 0) (allocation_values a)"

definition optimizePortfolioAllocation :: "constraints \<Rightarrow> allocation" where
  "optimizePortfolioAllocation c =
     (let riskTolerance_v =
            (case riskTolerance c of
               None \<Rightarrow> ''moderate''
             | Some s \<Rightarrow> if s = [] then ''moderate'' else s);
          allocation0 = getRecommendedAllocation riskTolerance_v;
          allocation1 =
            (case timeHorizon c of
               None \<Rightarrow> allocation0
             | Some h \<Rightarrow>
                 if js_truthy h then
                   (if js_lt h (Num 5) then
                      allocation0 \<lparr> stocks := js_max (Num 10) (js_sub (stocks allocation0) (Num 10)),
                                    bonds := js_min (Num 40) (js_add (bonds allocation0) (Num 10)) \<rparr>
                    else if js_gt h (Num 15) then
                      allocation0 \<lparr> stocks := js_min (Num 60) (js_add (stocks allocation0) (Num 10)),
                                    bonds := js_max (Num 10) (js_sub (bonds allocation0) (Num 10)) \<rparr>
                    else allocation0)
                 else allocation0);
          total = allocation_total allocation1
      in if js_sne total (Num 100) then
           \<lparr> sip = round_js (js_mul (js_div (sip allocation1) total) (Num 100)) (Num 0),
             stocks = round_js (js_mul (js_div (stocks allocation1) total) (Num 100)) (Num 0),
             bonds = round_js (js_mul (js_div (bonds allocation1) total) (Num 100)) (Num 0),
             realestate = round_js (js_mul (js_div (realestate allocation1) total) (Num 100)) (Num 0),
             gold = round_js (js_mul (js_div (gold allocation1) total) (Num 100)) (Num 0) \<rparr>
         else allocation1)"

section \<open>Notions of the specification\<close>

text \<open>
  Rounding to \<open>d\<close> decimals, a tie going up: scale, take the nearest integer, scale back.
\<close>

definition round_half_up :: "nat \<Rightarrow> real \<Rightarrow> real" where
  "round_half_up d x = of_int \<lfloor>x * 10 ^ d + 1 / 2\<rfloor> / 10 ^ d"

text \<open>
  The factor of the annuity formula: the maturity value of a contribution of 1 paid for
  \<open>n\<close> months at the monthly rate \<open>r\<close>.
\<close>

definition annuity_factor :: "real \<Rightarrow> nat \<Rightarrow> real" where
  "annuity_factor r n = (((1 + r) ^ n - 1) / r) * (1 + r)"

text \<open>
  The time points of the projection sampler as the specification words them: the positive
  multiples of the interval up to and including the total duration, then the total
  duration itself when it is not a multiple of the interval.
\<close>

definition interval_multiples :: "real \<Rightarrow> real \<Rightarrow> real list" where
  "interval_multiples interval totalMonths =
     map (\<lambda>k. interval * real k) [1..<Suc (nat \<lfloor>totalMonths / interval\<rfloor>)]"

definition sample_months :: "real \<Rightarrow> real \<Rightarrow> real list" where
  "sample_months interval totalMonths =
     interval_multiples interval totalMonths @
     (if is_integral (totalMonths / interval) then [] else [totalMonths])"

section \<open>Evaluation on finite numbers\<close>

lemma js_truthy_Num [simp]: "js_truthy (Num a) = (a \<noteq> 0)"
  by (simp add: js_truthy_def)

lemma pow_finite_of_nat: "pow_finite b (of_nat n) = Num (b ^ n)"
  by (simp add: pow_finite_def is_integral_def)

lemma pow_finite_numeral [simp]: "pow_finite b (numeral k) = Num (b ^ numeral k)"
  using pow_finite_of_nat [of b "numeral k"] by simp

lemma pow_finite_zero [simp]: "pow_finite b 0 = Num 1"
  by (simp add: pow_finite_def)

lemma pow_finite_one [simp]: "pow_finite b 1 = Num b"
  using pow_finite_of_nat [of b 1] by simp

lemma js_lt_irrefl [simp]: "\<not> js_lt a a"
  by (cases a) simp_all

lemma js_le_Num [simp]: "js_le (Num a) (Num b) = (a \<le> b)"
  by (auto simp: js_le_def js_seq_def)

lemma round_js_Num: "round_js (Num x) (Num (of_nat d)) = Num (round_half_up d x)"
  by (simp add: round_js_def round_half_up_def pow_finite_of_nat)

lemma round_js_2 [simp]: "round_js (Num x) (Num 2) = Num (round_half_up 2 x)"
  using round_js_Num [of x 2] by simp

lemma round_js_6 [simp]: "round_js (Num x) (Num 6) = Num (round_half_up 6 x)"
  using round_js_Num [of x 6] by simp

lemma round_js_0 [simp]: "round_js (Num x) (Num 0) = Num (round_half_up 0 x)"
  using round_js_Num [of x 0] by simp

text \<open>
  What \<open>calculateSIP\<close> returns on positive finite arguments when the period is a whole
  number \<open>m\<close> of months.
\<close>

lemma calculateSIP_finite:
  assumes "0 < P" "0 < Y" "0 < R" "Y * 12 = of_nat m"
  shows "calculateSIP (Num P) (Num Y) (Num R) =
    Inr \<lparr> monthlyAmount = Num (round_half_up 2 P),
          years = Num Y,
          months = Num (Y * 12),
          annualReturns = Num (round_half_up 2 R),
          monthlyRate = Num (round_half_up 6 (R / 100 / 12)),
          totalInvested = Num (round_half_up 2 (P * (Y * 12))),
          maturityValue = Num (round_half_up 2
             (P * (((1 + R / 100 / 12) ^ m - 1) / (R / 100 / 12)) * (1 + R / 100 / 12))),
          returns = Num (round_half_up 2
             (P * (((1 + R / 100 / 12) ^ m - 1) / (R / 100 / 12)) * (1 + R / 100 / 12)
              - P * (Y * 12))),
          returnPercentage = Num (round_half_up 2
             ((P * (((1 + R / 100 / 12) ^ m - 1) / (R / 100 / 12)) * (1 + R / 100 / 12)
              - P * (Y * 12)) / (P * (Y * 12)) * 100)) \<rparr>"
proof -
  have pw: "\<And>b. pow_finite b (Y * 12) = Num (b ^ m)"
    using assms(4) pow_finite_of_nat by simp
  show ?thesis
    using assms(1-3)
    by (simp add: calculateSIP_def yearsToMonths_def annualToMonthlyRate_def js_gt_def
        js_sub_def Let_def pw)
qed

lemma sip_example:
  "calculateSIP (Num 5000) (Num 10) (Num 12) =
     Inr \<lparr> monthlyAmount = Num 5000, years = Num 10, months = Num 120,
           annualReturns = Num 12, monthlyRate = Num (1 / 100),
           totalInvested = Num 600000, maturityValue = Num (58084769 / 50),
           returns = Num (28084769 / 50), returnPercentage = Num (4681 / 50) \<rparr>"
  using calculateSIP_finite [of 5000 10 12 120]
  by (simp add: round_half_up_def power_divide)

section \<open>Rounding and the annuity factor\<close>

text \<open>
  The annuity factor is the sum of the powers \<open>(1 + r)^k\<close> for \<open>k\<close> from 1 to \<open>n\<close>;
  its bounds and its monotonicity follow from the sum.
\<close>

lemma annuity_factor_sum:
  assumes "r \<noteq> 0"
  shows "annuity_factor r n = (\<Sum>k = 1..n. (1 + r) ^ k)"
proof (induction n)
  case 0
  then show ?case by (simp add: annuity_factor_def)
next
  case (Suc n)
  have "annuity_factor r (Suc n) = annuity_factor r n + (1 + r) ^ Suc n"
    using assms by (simp add: annuity_factor_def field_simps)
  with Suc show ?case by simp
qed

lemma annuity_factor_ge:
  assumes "0 < r"
  shows "real n \<le> annuity_factor r n"
proof -
  have "(\<Sum>k = 1..n. (1::real)) \<le> (\<Sum>k = 1..n. (1 + r) ^ k)"
    using assms by (intro sum_mono one_le_power) simp
  then show ?thesis
    using assms by (simp add: annuity_factor_sum)
qed

lemma annuity_factor_mono_months:
  assumes "0 < r" "m < m'"
  shows "annuity_factor r m < annuity_factor r m'"
proof -
  have "(1 + r) ^ m < (1 + r) ^ m'"
    using assms by (intro power_strict_increasing) simp_all
  then have "((1 + r) ^ m - 1) / r < ((1 + r) ^ m' - 1) / r"
    using assms(1) by (simp add: divide_strict_right_mono)
  then have "((1 + r) ^ m - 1) / r * (1 + r) < ((1 + r) ^ m' - 1) / r * (1 + r)"
    using assms(1) by (intro mult_strict_right_mono) simp_all
  then show ?thesis
    by (simp only: annuity_factor_def)
qed

lemma annuity_factor_mono_rate:
  assumes "0 < r" "r < r'" "0 < n"
  shows "annuity_factor r n < annuity_factor r' n"
proof -
  have "(\<Sum>k = 1..n. (1 + r) ^ k) < (\<Sum>k = 1..n. (1 + r') ^ k)"
  proof (rule sum_strict_mono)
    show "finite {1..n}" by simp
    show "{1..n} \<noteq> {}" using assms(3) by simp
    fix k assume "k \<in> {1..n}"
    then show "(1 + r) ^ k < (1 + r') ^ k"
      using assms(1,2) by (intro power_strict_mono) simp_all
  qed
  then show ?thesis
    using assms(1,2) by (simp add: annuity_factor_sum)
qed

text \<open>Rounding is monotone and moves a value by at most half a unit of the last decimal.\<close>

lemma round_half_up_mono:
  assumes "x \<le> y"
  shows "round_half_up d x \<le> round_half_up d y"
proof -
  have "x * 10 ^ d + 1 / 2 \<le> y * 10 ^ d + 1 / 2"
    using assms by simp
  then have "\<lfloor>x * 10 ^ d + 1 / 2\<rfloor> \<le> \<lfloor>y * 10 ^ d + 1 / 2\<rfloor>"
    by (rule floor_mono)
  then show ?thesis
    by (simp add: round_half_up_def divide_right_mono)
qed

lemma round_half_up_zero [simp]: "round_half_up d 0 = 0"
  by (simp add: round_half_up_def)

lemma round_half_up_error: "\<bar>round_half_up d x - x\<bar> \<le> 1 / (2 * 10 ^ d)"
proof -
  define s :: real where "s = 10 ^ d"
  have s: "0 < s" by (simp add: s_def)
  define k where "k = \<lfloor>x * s + 1 / 2\<rfloor>"
  have "of_int k \<le> x * s + 1 / 2" "x * s + 1 / 2 < of_int k + 1"
    unfolding k_def by linarith+
  then have "\<bar>of_int k - x * s\<bar> \<le> 1 / 2" by linarith
  then have "\<bar>of_int k - x * s\<bar> / s \<le> (1 / 2) / s"
    using s by (intro divide_right_mono) simp_all
  moreover have "of_int k / s - x = (of_int k - x * s) / s"
    using s by (simp add: field_simps)
  then have "\<bar>of_int k / s - x\<bar> = \<bar>of_int k - x * s\<bar> / s"
    by (simp only: abs_divide abs_of_pos [OF s])
  ultimately show ?thesis
    by (simp add: round_half_up_def k_def s_def)
qed

text \<open>
  A power with a positive base and a positive exponent, whole or not, and the growth of
  the annuity formula for such an exponent.
\<close>

lemma pow_finite_pos:
  assumes "0 < b" "0 < y"
  shows "pow_finite b y = Num (b powr y)"
proof (cases "is_integral y")
  case True
  then have "y = real (nat \<lfloor>y\<rfloor>)"
    using assms(2) by (simp add: is_integral_def)
  then have "b powr y = b ^ nat \<lfloor>y\<rfloor>"
    using assms(1) powr_realpow by metis
  with True assms show ?thesis by (simp add: pow_finite_def)
next
  case False
  with assms show ?thesis by (simp add: pow_finite_def)
qed

lemma powr_growth:
  fixes r y :: real
  assumes "0 < r" "0 < y"
  shows "y \<le> (((1 + r) powr y - 1) / r) * (1 + r)"
proof -
  have "ln (1 / (1 + r)) \<le> 1 / (1 + r) - 1"
    using assms(1) by (intro ln_le_minus_one) simp
  moreover have "1 / (1 + r) - 1 = - (r / (1 + r))"
    using assms(1) by (simp add: field_simps)
  moreover have "ln (1 / (1 + r)) = - ln (1 + r)"
    using assms(1) by (simp add: ln_div)
  ultimately have ln_lb: "r / (1 + r) \<le> ln (1 + r)" by linarith
  have "1 + y * ln (1 + r) \<le> exp (y * ln (1 + r))"
    by (rule exp_ge_add_one_self)
  moreover have "(1 + r) powr y = exp (y * ln (1 + r))"
    using assms(1) by (simp add: powr_def)
  ultimately have "y * ln (1 + r) \<le> (1 + r) powr y - 1"
    by linarith
  moreover have "y * (r / (1 + r)) \<le> y * ln (1 + r)"
    using ln_lb assms(2) by (intro mult_left_mono) simp_all
  ultimately have "y * (r / (1 + r)) \<le> (1 + r) powr y - 1" by linarith
  then have "y * (r / (1 + r)) * ((1 + r) / r) \<le> ((1 + r) powr y - 1) * ((1 + r) / r)"
    using assms(1) by (intro mult_right_mono) simp_all
  moreover have "y * (r / (1 + r)) * ((1 + r) / r) = y"
    using assms(1) by simp
  ultimately show ?thesis by (simp add: field_simps)
qed

lemma annuity_factor_pos:
  assumes "0 < r" "0 < n"
  shows "0 < annuity_factor r n"
proof -
  have "0 < real n" using assms(2) by simp
  also have "real n \<le> annuity_factor r n" using assms(1) by (rule annuity_factor_ge)
  finally show ?thesis .
qed

section \<open>Results of the calculator on finite numbers\<close>

lemma calculateSIP_pos:
  assumes "0 < P" "0 < Y" "0 < R"
  shows "calculateSIP (Num P) (Num Y) (Num R) =
    Inr \<lparr> monthlyAmount = Num (round_half_up 2 P),
          years = Num Y,
          months = Num (Y * 12),
          annualReturns = Num (round_half_up 2 R),
          monthlyRate = Num (round_half_up 6 (R / 100 / 12)),
          totalInvested = Num (round_half_up 2 (P * (Y * 12))),
          maturityValue = Num (round_half_up 2
             (P * (((1 + R / 100 / 12) powr (Y * 12) - 1) / (R / 100 / 12)) * (1 + R / 100 / 12))),
          returns = Num (round_half_up 2
             (P * (((1 + R / 100 / 12) powr (Y * 12) - 1) / (R / 100 / 12)) * (1 + R / 100 / 12)
              - P * (Y * 12))),
          returnPercentage = Num (round_half_up 2
             ((P * (((1 + R / 100 / 12) powr (Y * 12) - 1) / (R / 100 / 12)) * (1 + R / 100 / 12)
              - P * (Y * 12)) / (P * (Y * 12)) * 100)) \<rparr>"
proof -
  have pw: "pow_finite (1 + R / 1200) (Y * 12) = Num ((1 + R / 1200) powr (Y * 12))"
    using assms(2,3) by (intro pow_finite_pos) simp_all
  show ?thesis
    using assms
    by (simp add: calculateSIP_def yearsToMonths_def annualToMonthlyRate_def js_gt_def
        js_sub_def Let_def pw)
qed

lemma calculateSIP_returns:
  assumes "0 < P" "0 < Y" "0 < R"
  shows "\<exists>res. calculateSIP (Num P) (Num Y) (Num R) = Inr res \<and>
           monthlyAmount res = Num (round_half_up 2 P) \<and> years res = Num Y \<and>
           months res = Num (Y * 12) \<and> annualReturns res = Num (round_half_up 2 R)"
  using assms by (simp add: calculateSIP_def yearsToMonths_def Let_def)

lemma calculateSIPValue_finite:
  assumes "0 < r"
  shows "calculateSIPValue (Num P) (Num (real m)) (Num r) = Num (P * annuity_factor r m)"
  using assms
  by (simp add: calculateSIPValue_def js_gt_def js_sub_def pow_finite_of_nat annuity_factor_def
      Let_def)

lemma calculateRequiredSIP_finite:
  assumes "0 < Y" "0 < R" "Y * 12 = real m"
  shows "calculateRequiredSIP (Num T) (Num Y) (Num R) =
           Num (round_half_up 2 (T / annuity_factor (R / 100 / 12) m))"
proof -
  define r where "r = R / 100 / 12"
  have r: "0 < r" using assms(2) by (simp add: r_def)
  have m: "0 < m" using assms(1,3) by (cases m) simp_all
  have rate: "annualToMonthlyRate (Num R) = Num r"
    by (simp add: annualToMonthlyRate_def r_def)
  have mon: "yearsToMonths (Num Y) = Num (real m)"
    using assms(3) by (simp add: yearsToMonths_def)
  have den: "js_mul (js_div (js_sub (js_pow (js_add (Num 1) (Num r)) (Num (real m))) (Num 1))
                       (Num r)) (js_add (Num 1) (Num r)) = Num (annuity_factor r m)"
    using r by (simp add: js_sub_def pow_finite_of_nat annuity_factor_def)
  have "annuity_factor r m \<noteq> 0"
    using annuity_factor_pos [OF r m] by simp
  then have dv: "js_div (Num T) (Num (annuity_factor r m)) = Num (T / annuity_factor r m)"
    by simp
  show ?thesis
    unfolding calculateRequiredSIP_def Let_def rate mon den dv
    using r by (simp add: js_gt_def r_def)
qed

lemma calculateRequiredSIP_zero_rate:
  assumes "Y \<noteq> 0"
  shows "calculateRequiredSIP (Num T) (Num Y) (Num 0) = Num (round_half_up 2 (T / (Y * 12)))"
  using assms
  by (simp add: calculateRequiredSIP_def yearsToMonths_def annualToMonthlyRate_def js_gt_def Let_def)

lemma round_trip_bound:
  assumes "0 < D"
  shows "\<bar>round_half_up 2 (round_half_up 2 (T / D) * D) - T\<bar> \<le> 0.005 * D + 0.005"
proof -
  define c where "c = round_half_up 2 (T / D)"
  have "\<bar>c - T / D\<bar> \<le> 1 / (2 * 10 ^ 2)"
    unfolding c_def by (rule round_half_up_error)
  then have "\<bar>c - T / D\<bar> * D \<le> 1 / (2 * 10 ^ 2) * D"
    using assms by (intro mult_right_mono) simp_all
  moreover have "\<bar>c - T / D\<bar> * D = \<bar>c * D - T\<bar>"
  proof -
    have "c * D - T = (c - T / D) * D" using assms by (simp add: field_simps)
    then show ?thesis by (simp only: abs_mult abs_of_pos [OF assms])
  qed
  ultimately have 1: "\<bar>c * D - T\<bar> \<le> 0.005 * D" by simp
  have 2: "\<bar>round_half_up 2 (c * D) - c * D\<bar> \<le> 1 / (2 * 10 ^ 2)"
    by (rule round_half_up_error)
  have "\<bar>round_half_up 2 (c * D) - T\<bar> \<le> \<bar>round_half_up 2 (c * D) - c * D\<bar> + \<bar>c * D - T\<bar>"
    by linarith
  with 1 2 show ?thesis unfolding c_def by simp
qed

lemma required_example:
  "round_half_up 2 (100000 / annuity_factor (12 / 100 / 12) 12) = 7806.81"
  by (simp add: round_half_up_def annuity_factor_def power_divide)

lemma tie_example:
  "compareSIPvsLumpSum (Num 1000) (Num 11436.9) (Num 1) (Num 12) =
     Inr \<lparr> sipResult =
             \<lparr> monthlyAmount = Num 1000, years = Num 1, months = Num 12,
               annualReturns = Num 12, monthlyRate = Num (1 / 100),
               totalInvested = Num 12000, maturityValue = Num 12809.33,
               returns = Num 809.33, returnPercentage = Num 6.74 \<rparr>,
           lumpSumResult =
             \<lparr> principal = Num 11436.9, ls_years = Num 1, ls_annualReturns = Num 12,
               ls_maturityValue = Num 12809.33, ls_returns = Num 1372.43,
               ls_returnPercentage = Num 12 \<rparr>,
           sipTotalInvested = Num 12000,
           comparison =
             \<lparr> sipMaturity = Num 12809.33, lumpSumMaturity = Num 12809.33,
               difference = Num 0, winner = ''Lump Sum'' \<rparr> \<rparr>"
  using calculateSIP_finite [of 1000 1 12 12]
  by (simp add: compareSIPvsLumpSum_def calculateLumpSum_def yearsToMonths_def js_sub_def js_gt_def Let_def round_half_up_def power_divide)

text \<open>A period of zero years makes \<open>calculateRequiredSIP\<close> divide by zero.\<close>

lemma calculateRequiredSIP_zero_period:
  "calculateRequiredSIP (Num 100000) (Num 0) (Num 12) = PosInf"
  by (simp add: calculateRequiredSIP_def yearsToMonths_def annualToMonthlyRate_def js_gt_def
      js_sub_def Let_def round_js_def signed_inf_def)

text \<open>
  Apart from the aggressive profile with a horizon above 15 years, the allocation returned
  for a finite horizon sums to 100.
\<close>

lemma optimizePortfolioAllocation_total_100_otherwise:
  assumes "toLowerCase s \<noteq> ''aggressive'' \<or> \<not> 15 < h"
  shows "allocation_total (optimizePortfolioAllocation
           \<lparr> riskTolerance = Some s, timeHorizon = Some (Num h) \<rparr>) = Num 100"
proof -
  have 1: "toLowerCase [] = []" by (simp add: toLowerCase_def)
  have 2: "toLowerCase ''moderate'' = ''moderate''"
    by (simp add: toLowerCase_def lower_char_def)
  show ?thesis
    using assms
    by (cases "s = []")
      (auto simp: optimizePortfolioAllocation_def getRecommendedAllocation_def 1 2
        allocation_total_def allocation_values_def js_gt_def js_sub_def js_sne_def js_seq_def Let_def)
qed

section \<open>The projection loop\<close>

text \<open>
  Started at the multiple \<open>j + 1\<close> of a positive interval, the loop ends and pushes the
  samples of the multiples that are left, up to \<open>\<lfloor>totalMonths / interval\<rfloor>\<close>.
\<close>

lemma multiple_le_iff:
  assumes "0 < i" "0 < k"
  shows "i * real k \<le> T \<longleftrightarrow> k \<le> nat \<lfloor>T / i\<rfloor>"
proof -
  have "i * real k \<le> T \<longleftrightarrow> real_of_int (int k) \<le> T / i"
    using assms(1) by (simp add: pos_le_divide_eq mult.commute)
  also have "\<dots> \<longleftrightarrow> int k \<le> \<lfloor>T / i\<rfloor>"
    by (rule le_floor_iff [symmetric])
  also have "\<dots> \<longleftrightarrow> k \<le> nat \<lfloor>T / i\<rfloor>"
    using assms(2) by linarith
  finally show ?thesis .
qed

lemma projection_loop_multiples:
  assumes "0 < i"
  shows "j \<le> nat \<lfloor>T / i\<rfloor> \<Longrightarrow>
    projection_loop P r (Num i) (Num T) (Num (i * real (Suc j))) acc =
      Some \<lparr> labels = labels acc @
               map (\<lambda>m. YearFixed1 (Num (m / 12)))
                 (map (\<lambda>k. i * real k) [Suc j..<Suc (nat \<lfloor>T / i\<rfloor>)]),
             invested = invested acc @
               map (\<lambda>m. round_js (js_mul P (Num m)) (Num 2))
                 (map (\<lambda>k. i * real k) [Suc j..<Suc (nat \<lfloor>T / i\<rfloor>)]),
             maturity = maturity acc @
               map (\<lambda>m. round_js (calculateSIPValue P (Num m) r) (Num 2))
                 (map (\<lambda>k. i * real k) [Suc j..<Suc (nat \<lfloor>T / i\<rfloor>)]),
             returns_series = returns_series acc @
               map (\<lambda>m. round_js (js_sub (calculateSIPValue P (Num m) r) (js_mul P (Num m))) (Num 2))
                 (map (\<lambda>k. i * real k) [Suc j..<Suc (nat \<lfloor>T / i\<rfloor>)]) \<rparr>"
proof (induction "nat \<lfloor>T / i\<rfloor> - j" arbitrary: j acc)
  case 0
  then have j: "j = nat \<lfloor>T / i\<rfloor>" by simp
  have "\<not> i * real (Suc j) \<le> T"
    using multiple_le_iff [OF assms, of "Suc j" T] j by simp
  then have "projection_loop P r (Num i) (Num T) (Num (i * real (Suc j))) acc = Some acc"
    by (subst projection_loop.simps) simp
  then show ?case by (simp add: j)
next
  case (Suc d)
  then have lt: "Suc j \<le> nat \<lfloor>T / i\<rfloor>" by simp
  then have le: "i * real (Suc j) \<le> T"
    using multiple_le_iff [OF assms, of "Suc j" T] by simp
  have nxt: "js_add (Num (i * real (Suc j))) (Num i) = Num (i * real (Suc (Suc j)))"
    by (simp add: algebra_simps)
  have d: "d = nat \<lfloor>T / i\<rfloor> - Suc j" using Suc.hyps(2) by simp
  have upt: "[Suc j..<Suc (nat \<lfloor>T / i\<rfloor>)] = Suc j # [Suc (Suc j)..<Suc (nat \<lfloor>T / i\<rfloor>)]"
    using lt by (simp add: upt_conv_Cons)
  have "projection_loop P r (Num i) (Num T) (Num (i * real (Suc j))) acc =
        projection_loop P r (Num i) (Num T) (Num (i * real (Suc (Suc j))))
          (push_sample P r (YearFixed1 (js_div (Num (i * real (Suc j))) (Num 12)))
             (Num (i * real (Suc j))) acc)"
    using le by (subst projection_loop.simps) (simp only: js_le_Num nxt if_True)
  also have "\<dots> = Some \<lparr> labels = labels acc @
               map (\<lambda>m. YearFixed1 (Num (m / 12)))
                 (map (\<lambda>k. i * real k) [Suc j..<Suc (nat \<lfloor>T / i\<rfloor>)]),
             invested = invested acc @
               map (\<lambda>m. round_js (js_mul P (Num m)) (Num 2))
                 (map (\<lambda>k. i * real k) [Suc j..<Suc (nat \<lfloor>T / i\<rfloor>)]),
             maturity = maturity acc @
               map (\<lambda>m. round_js (calculateSIPValue P (Num m) r) (Num 2))
                 (map (\<lambda>k. i * real k) [Suc j..<Suc (nat \<lfloor>T / i\<rfloor>)]),
             returns_series = returns_series acc @
               map (\<lambda>m. round_js (js_sub (calculateSIPValue P (Num m) r) (js_mul P (Num m))) (Num 2))
                 (map (\<lambda>k. i * real k) [Suc j..<Suc (nat \<lfloor>T / i\<rfloor>)]) \<rparr>"
    unfolding Suc.hyps(1) [OF d lt] upt
    by (simp add: push_sample_def Let_def)
  finally show ?case .
qed

text \<open>The remainder is zero exactly when the total is a multiple of the interval.\<close>

lemma js_trunc_eq_iff: "x = of_int (js_trunc x) \<longleftrightarrow> is_integral x"
proof (cases "x < 0")
  case True
  have "x = of_int \<lceil>x\<rceil> \<longleftrightarrow> x = of_int \<lfloor>x\<rfloor>"
    by (metis ceiling_of_int floor_of_int)
  with True show ?thesis by (simp add: js_trunc_def is_integral_def)
next
  case False
  then show ?thesis by (simp add: js_trunc_def is_integral_def)
qed

lemma js_mod_tail:
  assumes "0 < i"
  shows "js_sne (js_mod (Num T) (Num i)) (Num 0) \<longleftrightarrow> \<not> is_integral (T / i)"
proof -
  have "T - i * of_int (js_trunc (T / i)) = 0 \<longleftrightarrow> T / i = of_int (js_trunc (T / i))"
    using assms by (simp add: field_simps)
  then show ?thesis
    using assms js_trunc_eq_iff [of "T / i"] by (simp add: js_sne_def js_seq_def)
qed

lemma is_integral_multiple:
  assumes "0 < i"
  shows "is_integral (T / i) \<longleftrightarrow> (\<exists>k :: int. T = i * of_int k)"
proof
  assume "is_integral (T / i)"
  then have "T / i = of_int \<lfloor>T / i\<rfloor>" by (simp add: is_integral_def)
  then have "T = i * of_int \<lfloor>T / i\<rfloor>" using assms by (simp add: field_simps)
  then show "\<exists>k :: int. T = i * of_int k" ..
next
  assume "\<exists>k :: int. T = i * of_int k"
  then obtain k :: int where "T = i * of_int k" ..
  then have "T / i = of_int k" using assms by simp
  then show "is_integral (T / i)" by (simp add: is_integral_def)
qed

lemma set_interval_multiples:
  assumes "0 < i"
  shows "set (interval_multiples i T) = {m. \<exists>k :: nat. 0 < k \<and> m = i * real k \<and> m \<le> T}"
proof -
  have "set (interval_multiples i T) = (\<lambda>k. i * real k) ` {k. 0 < k \<and> k \<le> nat \<lfloor>T / i\<rfloor>}"
    by (auto simp: interval_multiples_def simp del: upt_Suc)
  also have "\<dots> = {m. \<exists>k :: nat. 0 < k \<and> m = i * real k \<and> m \<le> T}"
    using multiple_le_iff [OF assms] by auto
  finally show ?thesis .
qed

lemma sorted_interval_multiples:
  assumes "0 < i"
  shows "sorted_wrt (<) (interval_multiples i T)"
  using assms by (simp add: interval_multiples_def sorted_wrt_map del: upt_Suc)

lemma sorted_sample_months:
  assumes "0 < i"
  shows "sorted_wrt (<) (sample_months i T)"
proof (cases "is_integral (T / i)")
  case True
  then show ?thesis
    using sorted_interval_multiples [OF assms] by (simp add: sample_months_def)
next
  case False
  have "m < T" if "m \<in> set (interval_multiples i T)" for m
  proof -
    from that obtain k :: nat where k: "m = i * real k" "m \<le> T"
      unfolding set_interval_multiples [OF assms] by blast
    have "m \<noteq> T"
    proof
      assume "m = T"
      then have "T = i * of_int (int k)" using k(1) by simp
      then have "is_integral (T / i)"
        unfolding is_integral_multiple [OF assms] by blast
      with False show False ..
    qed
    with k(2) show ?thesis by simp
  qed
  with False show ?thesis
    using sorted_interval_multiples [OF assms]
    by (simp add: sample_months_def sorted_wrt_append)
qed


lemma sample_months_examples:
  "sample_months 6 10 = [6, 10]" "sample_months 6 12 = [6, 12]"
  by (simp_all add: sample_months_def interval_multiples_def is_integral_def upt_conv_Cons)

section \<open>The claims\<close>

text \<open>
  In exact arithmetic, where no operation rounds. For a positive monthly amount, a positive whole number of years and a positive annual
  rate, \<open>calculateSIP\<close> returns a result whose \<open>maturityValue\<close> is
  \<open>P \<times> (((1 + r)^n - 1) / r) \<times> (1 + r)\<close> rounded to 2 decimals, with \<open>n = years \<times> 12\<close> and
  \<open>r = annualReturns / 100 / 12\<close>. For 5000 a month over 10 years at 12 per cent it returns
  120 months, the monthly rate 0.01, 600000 invested, a maturity value within 0.5 of
  1161695.38 and the return percentage 93.62.
\<close>

theorem calculateSIP_maturity_formula:
  "(\<forall>P R. \<forall>y::nat. 0 < P \<and> 0 < y \<and> 0 < R \<longrightarrow>
      (\<exists>res. calculateSIP (Num P) (Num (real y)) (Num R) = Inr res \<and>
         maturityValue res =
           Num (round_half_up 2
                  (P * (((1 + R / 100 / 12) ^ (y * 12) - 1) / (R / 100 / 12))
                     * (1 + R / 100 / 12)))))
   \<and> (\<exists>res m. calculateSIP (Num 5000) (Num 10) (Num 12) = Inr res \<and>
         months res = Num 120 \<and> monthlyRate res = Num (1 / 100) \<and>
         totalInvested res = Num 600000 \<and>
         maturityValue res = Num m \<and> \<bar>m - 1161695.38\<bar> \<le> 0.5 \<and>
         returnPercentage res = Num 93.62)"
proof (intro conjI allI impI)
  fix P R :: real and y :: nat
  assume h: "0 < P \<and> 0 < y \<and> 0 < R"
  then have "real y * 12 = real (y * 12)" "0 < real y" by simp_all
  with h show "\<exists>res. calculateSIP (Num P) (Num (real y)) (Num R) = Inr res \<and>
         maturityValue res =
           Num (round_half_up 2
                  (P * (((1 + R / 100 / 12) ^ (y * 12) - 1) / (R / 100 / 12))
                     * (1 + R / 100 / 12)))"
    using calculateSIP_finite [of P "real y" R "y * 12"] by simp
next
  show "\<exists>res m. calculateSIP (Num 5000) (Num 10) (Num 12) = Inr res \<and>
         months res = Num 120 \<and> monthlyRate res = Num (1 / 100) \<and>
         totalInvested res = Num 600000 \<and>
         maturityValue res = Num m \<and> \<bar>m - 1161695.38\<bar> \<le> 0.5 \<and>
         returnPercentage res = Num 93.62"
  proof -
    have "\<exists>m. Num (58084769 / 50) = Num m \<and> \<bar>m - 1161695.38\<bar> \<le> 0.5"
      by (rule exI [of _ "58084769 / 50"]) simp
    then show ?thesis unfolding sip_example by simp
  qed
qed

theorem calculateSIP_maturity_formula_witness:
  "(0::real) < 100 \<and> (0::nat) < 1 \<and> (0::real) < 12 \<and>
   (\<exists>res. calculateSIP (Num 100) (Num 1) (Num 12) = Inr res \<and>
      maturityValue res = Num 1280.93)"
proof -
  have "\<exists>res. calculateSIP (Num 100) (Num (real (1::nat))) (Num 12) = Inr res \<and>
         maturityValue res =
           Num (round_half_up 2
                  (100 * (((1 + 12 / 100 / 12) ^ (1 * 12) - 1) / (12 / 100 / 12))
                     * (1 + 12 / 100 / 12)))"
    using calculateSIP_maturity_formula [THEN conjunct1, rule_format, of 100 1 12] by simp
  then show ?thesis by (simp add: round_half_up_def power_divide)
qed

text \<open>
  C2. The claim: at the rate zero \<open>calculateSIP\<close> does not fail and returns the
  contributions, 12000 for 1000 a month over 12 months. The code does not: the guard
  \<open>!annualReturns\<close> holds for 0, so every call at the rate zero throws and the branch
  written for that rate is never reached, while \<open>calculateSIPValue\<close> returns
  \<open>monthlyAmount \<times> months\<close> there.
\<close>

theorem calculateSIP_rejects_zero_rate:
  "calculateSIP (Num P) (Num Y) (Num 0) \<noteq> Inr res \<and>
   (0 < P \<and> 0 < Y \<longrightarrow>
      calculateSIP (Num P) (Num Y) (Num 0) = Inl (Error ''Annual returns must be a positive number'') \<and>
      calculateSIPValue (Num P) (Num (Y * 12)) (annualToMonthlyRate (Num 0)) = Num (P * (Y * 12)))"
  by (simp add: calculateSIP_def calculateSIPValue_def annualToMonthlyRate_def js_gt_def)

theorem calculateSIP_rejects_zero_rate_witness:
  "calculateSIP (Num 1000) (Num 1) (Num 0) = Inl (Error ''Annual returns must be a positive number'') \<and>
   calculateSIPValue (Num 1000) (Num 12) (Num 0) = Num 12000"
  using calculateSIP_rejects_zero_rate [of 1000 1]
  by (simp add: annualToMonthlyRate_def)

theorem calculateSIP_validation_counterexample:
  "\<not> (1000 \<le> (0::real)) \<and> \<not> ((0::real) < 0) \<and> \<not> ((12::real) < 0) \<and>
   calculateSIP (Num 1000) (Num 0) (Num 12) = Inl (Error ''Years must be a positive number'')"
  by (simp add: calculateSIP_def)

text \<open>
  C3, as amended. \<open>calculateSIP\<close> throws the error that names the first offending
  argument when the monthly amount is non-positive or not a number, when the period is
  non-positive (zero included) or not a number, and when the rate is negative or not a
  number; with all three positive it returns a result whose \<open>years\<close> is the period as
  given. For a rate other than zero it throws if and only if the amount or
  the period is non-positive or the rate is negative.
\<close>

theorem calculateSIP_validation:
  "(P \<le> 0 \<longrightarrow>
      calculateSIP (Num P) Y' R' = Inl (Error ''Monthly amount must be a positive number'')) \<and>
   calculateSIP NaN Y' R' = Inl (Error ''Monthly amount must be a positive number'') \<and>
   (0 < P \<and> Y \<le> 0 \<longrightarrow>
      calculateSIP (Num P) (Num Y) R' = Inl (Error ''Years must be a positive number'')) \<and>
   (0 < P \<longrightarrow> calculateSIP (Num P) NaN R' = Inl (Error ''Years must be a positive number'')) \<and>
   (0 < P \<and> 0 < Y \<and> R < 0 \<longrightarrow>
      calculateSIP (Num P) (Num Y) (Num R) =
        Inl (Error ''Annual returns must be a positive number'')) \<and>
   (0 < P \<and> 0 < Y \<longrightarrow>
      calculateSIP (Num P) (Num Y) NaN = Inl (Error ''Annual returns must be a positive number'')) \<and>
   (0 < P \<and> 0 < Y \<and> 0 < R \<longrightarrow>
      (\<exists>res. calculateSIP (Num P) (Num Y) (Num R) = Inr res \<and> years res = Num Y)) \<and>
   (R \<noteq> 0 \<longrightarrow>
      (isl (calculateSIP (Num P) (Num Y) (Num R)) \<longleftrightarrow> P \<le> 0 \<or> Y \<le> 0 \<or> R < 0))"
proof (intro conjI impI)
  assume "0 < P \<and> 0 < Y \<and> 0 < R"
  then show "\<exists>res. calculateSIP (Num P) (Num Y) (Num R) = Inr res \<and> years res = Num Y"
    using calculateSIP_returns by blast
qed (auto simp: calculateSIP_def js_truthy_def Let_def)

theorem calculateSIP_validation_witness:
  "calculateSIP (Num (- 5)) (Num 1) (Num 12) =
     Inl (Error ''Monthly amount must be a positive number'') \<and>
   calculateSIP (Num 1000) (Num (- 2)) (Num 12) = Inl (Error ''Years must be a positive number'') \<and>
   calculateSIP (Num 1000) (Num 1) (Num (- 3)) =
     Inl (Error ''Annual returns must be a positive number'') \<and>
   (\<exists>res. calculateSIP (Num 1000) (Num 1) (Num 12) = Inr res \<and> years res = Num 1)"
  using calculateSIP_validation [of "- 5" "Num 1" "Num 12" "- 2"]
    calculateSIP_validation [of 1000 "Num 1" "Num 12" "- 2"]
    calculateSIP_validation [of 1000 "Num 1" "Num 12" 1 "- 3"]
    calculateSIP_validation [of 1000 "Num 1" "Num 12" 1 12]
  by (simp add: round_half_up_def)

text \<open>
  In exact arithmetic, where no operation rounds. On every input that \<open>calculateSIP\<close> accepts (a positive amount, a positive period,
  whole or not, and a positive rate) the result has \<open>maturityValue \<ge> totalInvested\<close>
  and \<open>returns \<ge> 0\<close>, both read with the comparison of JavaScript.
\<close>

theorem calculateSIP_maturity_ge_invested:
  assumes "0 < P" "0 < Y" "0 < R"
  shows "\<exists>res. calculateSIP (Num P) (Num Y) (Num R) = Inr res \<and>
           js_le (totalInvested res) (maturityValue res) \<and> js_le (Num 0) (returns res)"
proof -
  define r where "r = R / 100 / 12"
  define fv where "fv = P * (((1 + r) powr (Y * 12) - 1) / r) * (1 + r)"
  have r: "0 < r" using assms(3) by (simp add: r_def)
  have "Y * 12 \<le> (((1 + r) powr (Y * 12) - 1) / r) * (1 + r)"
    using r assms(2) by (intro powr_growth) simp_all
  then have "P * (Y * 12) \<le> P * ((((1 + r) powr (Y * 12) - 1) / r) * (1 + r))"
    using assms(1) by (intro mult_left_mono) simp_all
  then have ge: "P * (Y * 12) \<le> fv"
    by (simp add: fv_def mult.assoc)
  then have 1: "round_half_up 2 (P * (Y * 12)) \<le> round_half_up 2 fv"
    by (rule round_half_up_mono)
  have "round_half_up 2 0 \<le> round_half_up 2 (fv - P * (Y * 12))"
    using ge by (intro round_half_up_mono) simp
  then have 2: "0 \<le> round_half_up 2 (fv - P * (Y * 12))" by simp
  show ?thesis
    using 1 2 calculateSIP_pos [OF assms]
    by (simp add: js_le_def js_seq_def fv_def r_def le_less)
qed

theorem calculateSIP_maturity_ge_invested_witness:
  "(0::real) < 1000 \<and> (0::real) < 1 \<and> (0::real) < 12 \<and>
   (\<exists>res. calculateSIP (Num 1000) (Num 1) (Num 12) = Inr res \<and>
      js_le (totalInvested res) (maturityValue res) \<and> js_le (Num 0) (returns res))"
  using calculateSIP_maturity_ge_invested [of 1000 1 12] by simp

text \<open>
  In exact arithmetic, where no operation rounds. For a positive contribution and a positive monthly rate, the value computed by
  \<open>calculateSIPValue\<close> is strictly increasing in the number of months, the rate being
  fixed, and strictly increasing in the monthly rate, the number of months being fixed.
\<close>

theorem calculateSIPValue_strictly_increasing:
  "(\<forall>P r. \<forall>m m' :: nat. 0 < P \<and> 0 < r \<and> 0 < m \<and> m < m' \<longrightarrow>
      js_lt (calculateSIPValue (Num P) (Num (real m)) (Num r))
            (calculateSIPValue (Num P) (Num (real m')) (Num r))) \<and>
   (\<forall>P r r'. \<forall>m :: nat. 0 < P \<and> 0 < m \<and> 0 < r \<and> r < r' \<longrightarrow>
      js_lt (calculateSIPValue (Num P) (Num (real m)) (Num r))
            (calculateSIPValue (Num P) (Num (real m)) (Num r')))"
proof (intro conjI allI impI)
  fix P r :: real and m m' :: nat
  assume h: "0 < P \<and> 0 < r \<and> 0 < m \<and> m < m'"
  then have "P * annuity_factor r m < P * annuity_factor r m'"
    by (simp add: annuity_factor_mono_months)
  with h show "js_lt (calculateSIPValue (Num P) (Num (real m)) (Num r))
            (calculateSIPValue (Num P) (Num (real m')) (Num r))"
    by (simp add: calculateSIPValue_finite)
next
  fix P r r' :: real and m :: nat
  assume h: "0 < P \<and> 0 < m \<and> 0 < r \<and> r < r'"
  then have "P * annuity_factor r m < P * annuity_factor r' m"
    by (simp add: annuity_factor_mono_rate)
  with h show "js_lt (calculateSIPValue (Num P) (Num (real m)) (Num r))
            (calculateSIPValue (Num P) (Num (real m)) (Num r'))"
    by (simp add: calculateSIPValue_finite)
qed

theorem calculateSIPValue_strictly_increasing_witness:
  "js_lt (calculateSIPValue (Num 1000) (Num 12) (Num (1 / 100)))
         (calculateSIPValue (Num 1000) (Num 24) (Num (1 / 100))) \<and>
   js_lt (calculateSIPValue (Num 1000) (Num 12) (Num (1 / 100)))
         (calculateSIPValue (Num 1000) (Num 12) (Num (2 / 100)))"
  using calculateSIPValue_strictly_increasing [THEN conjunct1, rule_format, of 1000 "1 / 100" 12 24]
    calculateSIPValue_strictly_increasing [THEN conjunct2, rule_format, of 1000 12 "1 / 100" "2 / 100"]
  by simp

theorem calculateRequiredSIP_round_trip_counterexample:
  "calculateRequiredSIP (Num 1) (Num 10) (Num 12) = Num 0 \<and>
   calculateSIP (calculateRequiredSIP (Num 1) (Num 10) (Num 12)) (Num 10) (Num 12) =
     Inl (Error ''Monthly amount must be a positive number'')"
proof -
  have "calculateRequiredSIP (Num 1) (Num 10) (Num 12) = Num 0"
    using calculateRequiredSIP_finite [of 10 12 120 1]
    by (simp add: round_half_up_def annuity_factor_def power_divide)
  then show ?thesis by (simp add: calculateSIP_def)
qed

text \<open>
  In exact arithmetic, where no operation rounds. For a positive rate and a period of a whole, positive number \<open>m\<close> of
  months, \<open>calculateRequiredSIP\<close> returns the target divided by the annuity factor,
  rounded to 2 decimals. When that contribution is positive, \<open>calculateSIP\<close> on it returns
  a \<open>maturityValue\<close> within \<open>0.005 \<times> factor + 0.005\<close> of the target (one rounding of the
  contribution, one of the maturity value); when it is rounded down to 0, \<open>calculateSIP\<close>
  throws the error of the monthly amount. At the rate zero \<open>calculateRequiredSIP\<close> returns
  the target divided by the number of months, rounded to 2 decimals.
\<close>

theorem calculateRequiredSIP_round_trip:
  "(\<forall>T Y R. \<forall>m :: nat. 0 < Y \<and> 0 < R \<and> Y * 12 = real m \<longrightarrow>
      (\<exists>c. calculateRequiredSIP (Num T) (Num Y) (Num R) = Num c \<and>
         c = round_half_up 2 (T / annuity_factor (R / 100 / 12) m) \<and>
         (0 < c \<longrightarrow>
            (\<exists>res mv. calculateSIP (Num c) (Num Y) (Num R) = Inr res \<and>
               maturityValue res = Num mv \<and>
               \<bar>mv - T\<bar> \<le> 0.005 * annuity_factor (R / 100 / 12) m + 0.005)) \<and>
         (c \<le> 0 \<longrightarrow>
            calculateSIP (Num c) (Num Y) (Num R) =
              Inl (Error ''Monthly amount must be a positive number'')))) \<and>
   (\<forall>T Y. Y \<noteq> 0 \<longrightarrow>
      calculateRequiredSIP (Num T) (Num Y) (Num 0) = Num (round_half_up 2 (T / (Y * 12))))"
proof (intro conjI allI impI)
  fix T Y R :: real and m :: nat
  assume h: "0 < Y \<and> 0 < R \<and> Y * 12 = real m"
  define D where "D = annuity_factor (R / 100 / 12) m"
  define c where "c = round_half_up 2 (T / D)"
  have m: "0 < m" using h by (cases m) simp_all
  have D: "0 < D" unfolding D_def using h m by (intro annuity_factor_pos) simp_all
  have req: "calculateRequiredSIP (Num T) (Num Y) (Num R) = Num c"
    using h by (simp add: calculateRequiredSIP_finite c_def D_def)
  have rt: "\<exists>res mv. calculateSIP (Num c) (Num Y) (Num R) = Inr res \<and>
               maturityValue res = Num mv \<and> \<bar>mv - T\<bar> \<le> 0.005 * D + 0.005" if "0 < c"
  proof -
    have "calculateSIP (Num c) (Num Y) (Num R) = Inr res \<Longrightarrow>
          maturityValue res = Num (round_half_up 2 (c * D))" for res
      using calculateSIP_finite [of c Y R m] that h
      by (auto simp: D_def annuity_factor_def mult.assoc)
    moreover have "\<exists>res. calculateSIP (Num c) (Num Y) (Num R) = Inr res"
      using calculateSIP_finite [of c Y R m] that h by simp
    moreover have "\<bar>round_half_up 2 (c * D) - T\<bar> \<le> 0.005 * D + 0.005"
      unfolding c_def using D by (rule round_trip_bound)
    ultimately show ?thesis by blast
  qed
  have low: "calculateSIP (Num c) (Num Y) (Num R) =
      Inl (Error ''Monthly amount must be a positive number'')" if "c \<le> 0"
    using that by (auto simp: calculateSIP_def)
  show "\<exists>c. calculateRequiredSIP (Num T) (Num Y) (Num R) = Num c \<and>
         c = round_half_up 2 (T / annuity_factor (R / 100 / 12) m) \<and>
         (0 < c \<longrightarrow>
            (\<exists>res mv. calculateSIP (Num c) (Num Y) (Num R) = Inr res \<and>
               maturityValue res = Num mv \<and>
               \<bar>mv - T\<bar> \<le> 0.005 * annuity_factor (R / 100 / 12) m + 0.005)) \<and>
         (c \<le> 0 \<longrightarrow>
            calculateSIP (Num c) (Num Y) (Num R) =
              Inl (Error ''Monthly amount must be a positive number''))"
    using req rt low unfolding c_def D_def by blast
next
  fix T Y :: real
  assume "Y \<noteq> 0"
  then show "calculateRequiredSIP (Num T) (Num Y) (Num 0) = Num (round_half_up 2 (T / (Y * 12)))"
    by (rule calculateRequiredSIP_zero_rate)
qed

theorem calculateRequiredSIP_round_trip_witness:
  "calculateRequiredSIP (Num 100000) (Num 1) (Num 12) = Num 7806.81 \<and>
   (\<exists>res mv. calculateSIP (Num 7806.81) (Num 1) (Num 12) = Inr res \<and>
      maturityValue res = Num mv \<and> \<bar>mv - 100000\<bar> \<le> 0.07) \<and>
   calculateRequiredSIP (Num 100) (Num 1) (Num 0) = Num 8.33"
proof -
  have "\<exists>c. calculateRequiredSIP (Num 100000) (Num 1) (Num 12) = Num c \<and>
         c = round_half_up 2 (100000 / annuity_factor (12 / 100 / 12) 12) \<and>
         (0 < c \<longrightarrow>
            (\<exists>res mv. calculateSIP (Num c) (Num 1) (Num 12) = Inr res \<and>
               maturityValue res = Num mv \<and>
               \<bar>mv - 100000\<bar> \<le> 0.005 * annuity_factor (12 / 100 / 12) 12 + 0.005)) \<and>
         (c \<le> 0 \<longrightarrow>
            calculateSIP (Num c) (Num 1) (Num 12) =
              Inl (Error ''Monthly amount must be a positive number''))"
    using calculateRequiredSIP_round_trip [THEN conjunct1, rule_format, of 1 12 12 100000]
    by simp
  then obtain c where c1: "calculateRequiredSIP (Num 100000) (Num 1) (Num 12) = Num c"
    and c2: "c = round_half_up 2 (100000 / annuity_factor (12 / 100 / 12) 12)"
    and c3: "0 < c \<longrightarrow>
            (\<exists>res mv. calculateSIP (Num c) (Num 1) (Num 12) = Inr res \<and>
               maturityValue res = Num mv \<and>
               \<bar>mv - 100000\<bar> \<le> 0.005 * annuity_factor (12 / 100 / 12) 12 + 0.005)"
    by blast
  have c4: "c = 7806.81"
    unfolding c2 by (rule required_example)
  have bound: "0.005 * annuity_factor (12 / 100 / 12) 12 + 0.005 \<le> (0.07 :: real)"
    by (simp add: annuity_factor_def power_divide)
  have "0 < c" unfolding c4 by simp
  with c3 obtain res mv where "calculateSIP (Num c) (Num 1) (Num 12) = Inr res"
    "maturityValue res = Num mv"
    "\<bar>mv - 100000\<bar> \<le> 0.005 * annuity_factor (12 / 100 / 12) 12 + 0.005"
    by blast
  with bound have p2: "\<exists>res mv. calculateSIP (Num c) (Num 1) (Num 12) = Inr res \<and>
      maturityValue res = Num mv \<and> \<bar>mv - 100000\<bar> \<le> 0.07"
    by force
  have "calculateRequiredSIP (Num 100) (Num 1) (Num 0) = Num (round_half_up 2 (100 / (1 * 12)))"
    using calculateRequiredSIP_round_trip [THEN conjunct2, rule_format, of 1 100] by simp
  then have p3: "calculateRequiredSIP (Num 100) (Num 1) (Num 0) = Num 8.33"
    by (simp add: round_half_up_def)
  show ?thesis
    using c1 p2 p3 unfolding c4 by blast
qed

text \<open>
  In exact arithmetic, where no operation rounds. For a positive interval and a finite period, \<open>calculateSIPProjections\<close> returns the
  samples at the time points of \<open>sample_months\<close>: one at each positive multiple of the
  interval up to and including \<open>totalMonths\<close>, in strictly increasing order, and one more
  at \<open>totalMonths\<close> exactly when \<open>totalMonths\<close> is not a multiple of the interval. With
  the interval 6 and 10 months the time points are 6 and 10; with 12 months they are 6 and
  12, the last one only once.
\<close>

theorem calculateSIPProjections_samples:
  assumes "0 < i"
  shows "calculateSIPProjections P (Num Y) R (Some (Num i)) =
     Some \<lparr> labels =
              map (\<lambda>m. YearFixed1 (Num (m / 12))) (interval_multiples i (Y * 12)) @
              (if is_integral (Y * 12 / i) then [] else [YearPlain (Num Y)]),
            invested =
              map (\<lambda>m. round_js (js_mul P (Num m)) (Num 2)) (sample_months i (Y * 12)),
            maturity =
              map (\<lambda>m. round_js (calculateSIPValue P (Num m) (annualToMonthlyRate R)) (Num 2))
                (sample_months i (Y * 12)),
            returns_series =
              map (\<lambda>m. round_js (js_sub (calculateSIPValue P (Num m) (annualToMonthlyRate R))
                                     (js_mul P (Num m))) (Num 2))
                (sample_months i (Y * 12)) \<rparr> \<and>
   sample_months i (Y * 12) =
     interval_multiples i (Y * 12) @
     (if \<exists>k :: int. Y * 12 = i * of_int k then [] else [Y * 12]) \<and>
   set (interval_multiples i (Y * 12)) =
     {m. \<exists>k :: nat. 0 < k \<and> m = i * real k \<and> m \<le> Y * 12} \<and>
   sorted_wrt (<) (sample_months i (Y * 12)) \<and>
   sample_months 6 10 = [6, 10] \<and> sample_months 6 12 = [6, 12]"
proof -
  define T where "T = Y * 12"
  have loop: "projection_loop P (annualToMonthlyRate R) (Num i) (Num T) (Num i)
          \<lparr> labels = [], invested = [], maturity = [], returns_series = [] \<rparr> =
        Some \<lparr> labels = map (\<lambda>m. YearFixed1 (Num (m / 12))) (interval_multiples i T),
               invested = map (\<lambda>m. round_js (js_mul P (Num m)) (Num 2)) (interval_multiples i T),
               maturity =
                 map (\<lambda>m. round_js (calculateSIPValue P (Num m) (annualToMonthlyRate R)) (Num 2))
                   (interval_multiples i T),
               returns_series =
                 map (\<lambda>m. round_js (js_sub (calculateSIPValue P (Num m) (annualToMonthlyRate R))
                                        (js_mul P (Num m))) (Num 2))
                   (interval_multiples i T) \<rparr>"
    using projection_loop_multiples [OF assms, of 0 T P "annualToMonthlyRate R"
        "\<lparr> labels = [], invested = [], maturity = [], returns_series = [] \<rparr>"]
    by (simp add: interval_multiples_def del: upt_Suc)
  have months: "yearsToMonths (Num Y) = Num T"
    by (simp add: yearsToMonths_def T_def)
  have "calculateSIPProjections P (Num Y) R (Some (Num i)) =
     Some \<lparr> labels =
              map (\<lambda>m. YearFixed1 (Num (m / 12))) (interval_multiples i T) @
              (if is_integral (T / i) then [] else [YearPlain (Num Y)]),
            invested = map (\<lambda>m. round_js (js_mul P (Num m)) (Num 2)) (sample_months i T),
            maturity =
              map (\<lambda>m. round_js (calculateSIPValue P (Num m) (annualToMonthlyRate R)) (Num 2))
                (sample_months i T),
            returns_series =
              map (\<lambda>m. round_js (js_sub (calculateSIPValue P (Num m) (annualToMonthlyRate R))
                                     (js_mul P (Num m))) (Num 2))
                (sample_months i T) \<rparr>"
    unfolding calculateSIPProjections_def Let_def months option.case loop js_mod_tail [OF assms]
    by (simp add: sample_months_def push_sample_def Let_def)
  moreover have "sample_months i T =
     interval_multiples i T @ (if \<exists>k :: int. T = i * of_int k then [] else [T])"
    unfolding sample_months_def is_integral_multiple [OF assms] ..
  moreover note set_interval_multiples [OF assms, of T] sorted_sample_months [OF assms, of T]
    sample_months_examples
  ultimately show ?thesis unfolding T_def by blast
qed

theorem calculateSIPProjections_samples_witness:
  "(0::real) < 6 \<and>
   calculateSIPProjections (Num 1000) (Num (10 / 12)) (Num 12) (Some (Num 6)) =
     Some \<lparr> labels = [YearFixed1 (Num (1 / 2)), YearPlain (Num (10 / 12))],
            invested = [Num 6000, Num 10000],
            maturity = [Num 6213.54, Num 10566.83],
            returns_series = [Num 213.54, Num 566.83] \<rparr>"
proof -
  have r: "annualToMonthlyRate (Num 12) = Num (1 / 100)"
    by (simp add: annualToMonthlyRate_def)
  have m: "interval_multiples 6 10 = [6]"
    by (simp add: interval_multiples_def)
  have v6: "calculateSIPValue (Num 1000) (Num 6) (Num (1 / 100)) = Num (1000 * annuity_factor (1 / 100) 6)"
    and v10: "calculateSIPValue (Num 1000) (Num 10) (Num (1 / 100)) = Num (1000 * annuity_factor (1 / 100) 10)"
    by (simp_all add: calculateSIPValue_def js_gt_def js_sub_def annuity_factor_def)
  have a6: "round_half_up 2 (1000 * annuity_factor (1 / 100) 6) = 6213.54"
    and b6: "round_half_up 2 (1000 * annuity_factor (1 / 100) 6 - 6000) = 213.54"
    and a10: "round_half_up 2 (1000 * annuity_factor (1 / 100) 10) = 10566.83"
    and b10: "round_half_up 2 (1000 * annuity_factor (1 / 100) 10 - 10000) = 566.83"
    by (simp_all add: round_half_up_def annuity_factor_def power_divide)
  have i6: "round_half_up 2 6000 = 6000" and i10: "round_half_up 2 10000 = 10000"
    by (simp_all add: round_half_up_def)
  have "(10::real) / 12 * 12 = 10" by simp
  then show ?thesis
    using calculateSIPProjections_samples [of 6 "Num 1000" "10 / 12" "Num 12", THEN conjunct1]
    by (simp add: r m sample_months_examples is_integral_def v6 v10 js_sub_def a6 b6 a10 b10
        i6 i10)
qed

theorem compare_tie_counterexample:
  "\<not> isl (compareSIPvsLumpSum (Num 1000) (Num 11436.9) (Num 1) (Num 12)) \<and>
   maturityValue (sipResult (projr (compareSIPvsLumpSum (Num 1000) (Num 11436.9) (Num 1) (Num 12))))
     = ls_maturityValue
         (lumpSumResult (projr (compareSIPvsLumpSum (Num 1000) (Num 11436.9) (Num 1) (Num 12)))) \<and>
   winner (comparison (projr (compareSIPvsLumpSum (Num 1000) (Num 11436.9) (Num 1) (Num 12))))
     \<noteq> ''SIP''"
  unfolding tie_example by simp

text \<open>
  C8, as amended. On every input on which \<open>compareSIPvsLumpSum\<close> returns and the maturity
  value of the SIP equals the maturity value of the lump sum, the winner is
  \<open>'Lump Sum'\<close>: the SIP wins only when its maturity value is strictly greater.
\<close>

theorem compare_tie_winner:
  assumes "compareSIPvsLumpSum monthlySIP lumpSumAmount Y R = Inr res"
    and "maturityValue (sipResult res) = ls_maturityValue (lumpSumResult res)"
  shows "winner (comparison res) = ''Lump Sum'' \<and>
         sipMaturity (comparison res) = maturityValue (sipResult res) \<and>
         lumpSumMaturity (comparison res) = ls_maturityValue (lumpSumResult res)"
  using assms
  by (auto simp: compareSIPvsLumpSum_def js_gt_def Let_def split: sum.splits)

theorem compare_tie_winner_witness:
  "compareSIPvsLumpSum (Num 1000) (Num 11436.9) (Num 1) (Num 12) \<noteq>
     Inl (Error ''Monthly amount must be a positive number'') \<and>
   sipMaturity (comparison (projr (compareSIPvsLumpSum (Num 1000) (Num 11436.9) (Num 1) (Num 12))))
     = Num 12809.33 \<and>
   lumpSumMaturity
     (comparison (projr (compareSIPvsLumpSum (Num 1000) (Num 11436.9) (Num 1) (Num 12))))
     = Num 12809.33 \<and>
   winner (comparison (projr (compareSIPvsLumpSum (Num 1000) (Num 11436.9) (Num 1) (Num 12))))
     = ''Lump Sum''"
  using compare_tie_winner [OF tie_example]
  unfolding tie_example by simp

text \<open>
  C9. The claim: on a degenerate input no field of a result is \<open>NaN\<close> or infinite, and
  \<open>calculateLumpSum\<close> with the principal 0 returns a finite \<open>returnPercentage\<close>. The code
  does not: it divides the returns by the principal without a guard, so with the principal
  0 the \<open>returnPercentage\<close> is \<open>NaN\<close> whatever the period and the rate are.
\<close>

theorem calculateLumpSum_zero_principal_NaN:
  "ls_returnPercentage (calculateLumpSum (Num 0) years_in annualReturns_in) = NaN"
proof -
  have "js_mul (Num 0) x = Num 0 \<or> js_mul (Num 0) x = NaN" for x
    by (cases x) (simp_all add: signed_inf_def)
  then have "js_sub (js_mul (Num 0) x) (Num 0) = Num 0 \<or> js_sub (js_mul (Num 0) x) (Num 0) = NaN" for x
    by (metis js_sub_def js_add.simps(1,2) js_neg.simps(1) add_0 minus_zero)
  then have "js_div (js_sub (js_mul (Num 0) x) (Num 0)) (Num 0) = NaN" for x
    by (metis js_div.simps(1,2))
  then show ?thesis
    by (simp add: calculateLumpSum_def Let_def round_js_def)
qed

theorem calculateLumpSum_zero_principal_NaN_witness:
  "calculateLumpSum (Num 0) (Num 5) (Num 10) =
     \<lparr> principal = Num 0, ls_years = Num 5, ls_annualReturns = Num 10,
       ls_maturityValue = Num 0, ls_returns = Num 0, ls_returnPercentage = NaN \<rparr>"
  using calculateLumpSum_zero_principal_NaN [of "Num 5" "Num 10"]
  by (simp add: calculateLumpSum_def js_sub_def Let_def round_half_up_def round_js_def)

text \<open>
  C10. The claim: after the normalisation the percentages of \<open>optimizePortfolioAllocation\<close>
  sum to exactly 100. The code does not reach it for the aggressive profile with a horizon
  above 15 years: the adjusted allocation sums to 110, each share is rounded on its own, and
  the result is 27, 55, 9, 5 and 5.
\<close>

theorem optimizePortfolioAllocation_total_101:
  "15 < h \<Longrightarrow>
   optimizePortfolioAllocation \<lparr> riskTolerance = Some ''aggressive'', timeHorizon = Some (Num h) \<rparr>
     = \<lparr> sip = Num 27, stocks = Num 55, bonds = Num 9, realestate = Num 5, gold = Num 5 \<rparr>"
  by (simp add: optimizePortfolioAllocation_def getRecommendedAllocation_def toLowerCase_def lower_char_def
     allocation_total_def allocation_values_def js_gt_def js_sub_def js_sne_def js_seq_def Let_def round_half_up_def)

theorem optimizePortfolioAllocation_total_101_witness:
  "(15::real) < 20 \<and>
   allocation_total (optimizePortfolioAllocation
     \<lparr> riskTolerance = Some ''aggressive'', timeHorizon = Some (Num 20) \<rparr>) = Num 101 \<and>
   Num 101 \<noteq> Num 100"
  using optimizePortfolioAllocation_total_101 [of 20]
  by (simp add: allocation_total_def allocation_values_def)

end
